theory Spec2Isabelle
  imports Complex_Main
begin

section \<open>The navigation types of \<open>src/types.tsx\<close>\<close>

text \<open>
  The source file declares types only: the navigation state tree, routes, actions, the
  router contract and the helpers handed to screens. It has no function body.

  The declarations are modelled twice. First as typed records: each object type becomes
  a datatype with the source's field names as selectors (several types share the field
  names \<open>key\<close>, \<open>index\<close>, \<open>routes\<close>, \<open>name\<close>, so selectors are written qualified:
  \<open>NavigationState.key\<close>, \<open>Route.key\<close>). An optional field \<open>f?: T\<close> is a field of
  type \<open>T option\<close>, a union \<open>A | B\<close> a datatype with one constructor per alternative,
  and an index signature \<open>{ [key: string]: T }\<close> is a map \<open>string \<rightharpoonup> T\<close>. The type
  \<open>number\<close> of \<open>index\<close> is modelled by \<open>int\<close> there. Values whose structure the file
  leaves open (\<open>object\<close>, \<open>any\<close>, the React component types) are opaque types.

  Then structurally, as TypeScript reads them: a type is the set of the values that
  conform to it, a predicate on JavaScript values. An object type asks for its
  properties and admits any further ones; nothing beyond the declared property types is
  asked of a value.
\<close>

subsection \<open>Opaque host types\<close>

typedecl object
typedecl any
typedecl ReactComponentType
typedecl ReactNode

subsection \<open>Route\<close>

text \<open>
  \<^verbatim>\<open>type Route<RouteName = string> = { key: string; name: RouteName; params?: object | void }\<close>.
  The field \<open>params\<close> is \<open>None\<close> when it is absent or void.
\<close>

datatype 'n Route = Route
  (key: string)
  (name: 'n)
  (params: "object option")

subsection \<open>NavigationState\<close>

text \<open>
  \<^verbatim>\<open>type NavigationState = { key: string; index: number; routeNames: string[];
    routes: Array<Route & { state?: NavigationState }> }\<close>.
  An element of \<open>routes\<close>, of type \<open>Route & { state?: NavigationState }\<close>, is a pair of the
  route and its optional nested state.
\<close>

datatype NavigationState = NavigationState
  (key: string)
  (index: int)
  (routeNames: "string list")
  (routes: "(string Route \<times> NavigationState option) list")

subsection \<open>InitialState\<close>

text \<open>
  \<^verbatim>\<open>type InitialState = Omit<Omit<NavigationState, 'routeNames'>, 'key'> & {
    key?: undefined; routeNames?: undefined; state?: InitialState }\<close>.
  The fields \<open>index\<close> and \<open>routes\<close> are those of \<open>NavigationState\<close>; \<open>key\<close> and
  \<open>routeNames\<close> can only be absent or \<open>undefined\<close>, so the datatype has no such field;
  \<open>state\<close> is an optional field of the initial state itself.
\<close>

datatype InitialState = InitialState
  (index: int)
  (routes: "(string Route \<times> NavigationState option) list")
  (state: "InitialState option")

subsection \<open>NavigationAction\<close>

text \<open>
  \<^verbatim>\<open>type NavigationAction = { type: string }\<close>. A router's own action type extends it
  (\<open>Action extends NavigationAction\<close>): the extensible record
  \<open>'a NavigationAction_scheme\<close>.
\<close>

record NavigationAction =
  type :: string

subsection \<open>ScreenProps and Options\<close>

text \<open>
  \<^verbatim>\<open>type Options = { title?: string; [key: string]: any }\<close> and
  \<^verbatim>\<open>type ScreenProps = { name; options?; initialParams? } & ({ component } | { children })\<close>.
\<close>

datatype Options = Options
  (title: "string option")
  (other: "string \<rightharpoonup> any")

datatype ScreenContent =
  component ReactComponentType
| children "any \<Rightarrow> ReactNode"

datatype ScreenProps = ScreenProps
  (name: string)
  (options: "Options option")
  (initialParams: "object option")
  (content: ScreenContent)

subsection \<open>Router\<close>

text \<open>
  The argument of \<open>getInitialState\<close> is an object with the fields \<open>screens\<close>,
  \<open>partialState?: NavigationState | InitialState\<close> and \<open>initialRouteName?: string\<close>.
  The two alternatives of \<open>partialState\<close> are disjoint (\<open>key\<close> is a string in the
  first and undefined in the second), so the union is a datatype with two constructors.
\<close>

datatype PartialState =
  Full NavigationState
| Partial InitialState

record GetInitialStateOptions =
  screens :: "string \<rightharpoonup> ScreenProps"
  partialState :: "PartialState option"
  initialRouteName :: "string option"


text \<open>
  \<^verbatim>\<open>type Router<Action extends NavigationAction> = {
    getInitialState(options): NavigationState;
    getStateForAction(state: NavigationState, action: Action): NavigationState | null;
    actionCreators: { [key: string]: (...args: any) => Action } }\<close>.
  The members of a router are declared by their types alone: the file holds no router,
  so there is no function to translate. The same holds of the helpers \<open>dispatch\<close>,
  \<open>reset\<close> and \<open>goBack\<close>; the parameter lists of \<open>navigate\<close> and \<open>replace\<close> are
  modelled below.
\<close>

text \<open>
  Reading \<open>key\<close> and \<open>routeNames\<close> from a value of type
  \<open>NavigationState | InitialState\<close>: a string and a list for a full state, undefined
  for an initial state.
\<close>

fun partialState_key :: "PartialState \<Rightarrow> string option" where
  "partialState_key (Full s) = Some (NavigationState.key s)"
| "partialState_key (Partial i) = None"

fun partialState_routeNames :: "PartialState \<Rightarrow> string list option" where
  "partialState_routeNames (Full s) = Some (routeNames s)"
| "partialState_routeNames (Partial i) = None"

text \<open>
  A state of two tabs, to state examples on.
\<close>

abbreviation (input) tabs_first :: NavigationState where
  "tabs_first \<equiv> NavigationState ''tabs-1'' 0 [''Home'', ''Profile'']
     [(Route ''home-1'' ''Home'' None, None), (Route ''profile-1'' ''Profile'' None, None)]"


section \<open>Values and the types as predicates\<close>

subsection \<open>JavaScript values\<close>

text \<open>
  A \<open>number\<close> is a double: a finite number or one of \<open>NaN\<close>, \<open>Infinity\<close> and
  \<open>-Infinity\<close>. Finite doubles are real numbers (not every real number is a double;
  nothing below depends on which are). A value is \<open>undefined\<close>, \<open>null\<close>, a boolean, a
  number, a string, an array or an object, given by its properties in order. Values are
  finite trees: functions, and objects that are shared or reach themselves, are not
  represented.
\<close>

datatype number = Finite real | NaN | PosInfinity | NegInfinity

datatype JSValue =
  JUndefined
| JNull
| JBoolean bool
| JNumber number
| JString string
| JArray "JSValue list"
| JObject "(string \<times> JSValue) list"

text \<open>
  \<open>field v p\<close> reads the property \<open>p\<close> of \<open>v\<close>, \<open>undefined\<close> when \<open>v\<close> has none (the
  first entry counts when a name is listed twice); \<open>elements v\<close> are the elements of
  an array.
\<close>

fun field :: "JSValue \<Rightarrow> string \<Rightarrow> JSValue" where
  "field (JObject fs) p = (case map_of fs p of None \<Rightarrow> JUndefined | Some v \<Rightarrow> v)"
| "field _ p = JUndefined"

fun elements :: "JSValue \<Rightarrow> JSValue list" where
  "elements (JArray vs) = vs"
| "elements _ = []"

subsection \<open>The primitive types\<close>

text \<open>
  \<open>string\<close>, \<open>number\<close>, \<open>object\<close> (every value that is not primitive: objects and
  arrays; under \<open>strictNullChecks\<close> neither \<open>null\<close> nor \<open>undefined\<close>) and \<open>string[]\<close>.
\<close>

fun is_string :: "JSValue \<Rightarrow> bool" where
  "is_string (JString s) = True"
| "is_string _ = False"

fun is_number :: "JSValue \<Rightarrow> bool" where
  "is_number (JNumber n) = True"
| "is_number _ = False"

fun is_object :: "JSValue \<Rightarrow> bool" where
  "is_object (JObject fs) = True"
| "is_object (JArray vs) = True"
| "is_object _ = False"

fun is_string_array :: "JSValue \<Rightarrow> bool" where
  "is_string_array (JArray vs) = list_all is_string vs"
| "is_string_array _ = False"

subsection \<open>Route and NavigationState\<close>

text \<open>
  \<^verbatim>\<open>type Route<RouteName = string> = { key: string; name: RouteName; params?: object | void }\<close>:
  a value with a string \<open>key\<close>, a string \<open>name\<close>, and \<open>params\<close> absent, undefined or
  an object.
\<close>

definition is_Route :: "JSValue \<Rightarrow> bool" where
  "is_Route v \<longleftrightarrow>
     is_string (field v ''key'') \<and>
     is_string (field v ''name'') \<and>
     (field v ''params'' = JUndefined \<or> is_object (field v ''params''))"

text \<open>
  \<^verbatim>\<open>type NavigationState = { key: string; index: number; routeNames: string[];
    routes: Array<Route & { state?: NavigationState }> }\<close>:
  an object with a string \<open>key\<close>, a number \<open>index\<close>, an array of strings \<open>routeNames\<close>
  and an array \<open>routes\<close> whose elements are routes, each with \<open>state\<close> absent,
  undefined or again a navigation state.
\<close>

function (sequential) is_NavigationState :: "JSValue \<Rightarrow> bool" where
  "is_NavigationState (JObject fs) =
     (is_string (field (JObject fs) ''key'') \<and>
      is_number (field (JObject fs) ''index'') \<and>
      is_string_array (field (JObject fs) ''routeNames'') \<and>
      (case field (JObject fs) ''routes'' of
         JArray rs \<Rightarrow>
           list_all (\<lambda>e. is_Route e \<and>
                          (if field e ''state'' = JUndefined then True
                           else is_NavigationState (field e ''state''))) rs
       | _ \<Rightarrow> False))"
| "is_NavigationState _ = False"
  by pat_completeness auto
termination
proof (relation "measure size")
  show "wf (measure size)" by simp
next
  fix fs :: "(string \<times> JSValue) list" and rs e
  assume routes: "field (JObject fs) ''routes'' = JArray rs"
    and e: "e \<in> set rs"
    and st: "field e ''state'' \<noteq> JUndefined"
  have field_smaller: "size (field v p) < size v" if "field v p \<noteq> JUndefined" for v p
  proof (cases v)
    case (JObject gs)
    with that obtain x where x: "map_of gs p = Some x" "field v p = x"
      by (auto split: option.splits)
    then have "(p, x) \<in> set gs" by (simp add: map_of_SomeD)
    then have "size x < size (JObject gs)" by (induction gs) auto
    with x JObject show ?thesis by simp
  qed (use that in auto)
  have "size e < size (JArray rs)" using e by (induction rs) auto
  moreover have "size (JArray rs) < size (JObject fs)"
    using field_smaller [of "JObject fs" "''routes''"] routes by simp
  moreover have "size (field e ''state'') < size e" using st by (rule field_smaller)
  ultimately show "(field e ''state'', JObject fs) \<in> measure size" by simp
qed

text \<open>
  An element of \<open>routes\<close>, of type \<open>Route & { state?: NavigationState }\<close>.
\<close>

definition is_StateRoute :: "JSValue \<Rightarrow> bool" where
  "is_StateRoute e \<longleftrightarrow>
     is_Route e \<and> (field e ''state'' = JUndefined \<or> is_NavigationState (field e ''state''))"

text \<open>
  The states of a state tree: the state itself and, for each of its routes that has a
  \<open>state\<close>, the states of that one.
\<close>

function (sequential) nestedStates :: "JSValue \<Rightarrow> JSValue list" where
  "nestedStates (JObject fs) =
     JObject fs #
     concat (map (\<lambda>e. if field e ''state'' = JUndefined then []
                       else nestedStates (field e ''state''))
               (elements (field (JObject fs) ''routes'')))"
| "nestedStates v = [v]"
  by pat_completeness auto
termination
proof (relation "measure size")
  show "wf (measure size)" by simp
next
  fix fs :: "(string \<times> JSValue) list" and e
  assume e: "e \<in> set (elements (field (JObject fs) ''routes''))"
    and st: "field e ''state'' \<noteq> JUndefined"
  have field_smaller: "size (field v p) < size v" if "field v p \<noteq> JUndefined" for v p
  proof (cases v)
    case (JObject gs)
    with that obtain x where x: "map_of gs p = Some x" "field v p = x"
      by (auto split: option.splits)
    then have "(p, x) \<in> set gs" by (simp add: map_of_SomeD)
    then have "size x < size (JObject gs)" by (induction gs) auto
    with x JObject show ?thesis by simp
  qed (use that in auto)
  from e obtain rs where routes: "field (JObject fs) ''routes'' = JArray rs" and ers: "e \<in> set rs"
    by (cases "field (JObject fs) ''routes''") auto
  have "size e < size (JArray rs)" using ers by (induction rs) auto
  moreover have "size (JArray rs) < size (JObject fs)"
    using field_smaller [of "JObject fs" "''routes''"] routes by simp
  moreover have "size (field e ''state'') < size e" using st by (rule field_smaller)
  ultimately show "(field e ''state'', JObject fs) \<in> measure size" by simp
qed

subsection \<open>The three conventions on a state\<close>

text \<open>
  The index of a state is valid when it is a whole number and a position of \<open>routes\<close>.
\<close>

definition index_valid :: "JSValue \<Rightarrow> bool" where
  "index_valid t \<longleftrightarrow>
     (case field t ''index'' of
        JNumber (Finite r) \<Rightarrow>
          r = of_int \<lfloor>r\<rfloor> \<and> 0 \<le> r \<and> r < of_nat (length (elements (field t ''routes'')))
      | _ \<Rightarrow> False)"

text \<open>
  The route names of a state cover its routes when the name of every route of \<open>routes\<close>
  is an element of \<open>routeNames\<close>.
\<close>

definition routeNames_cover :: "JSValue \<Rightarrow> bool" where
  "routeNames_cover t \<longleftrightarrow>
     set (map (\<lambda>e. field e ''name'') (elements (field t ''routes'')))
       \<subseteq> set (elements (field t ''routeNames''))"

text \<open>
  The keys of the routes of a state are unique when no two routes of \<open>routes\<close> have
  the same key.
\<close>

definition keys_unique :: "JSValue \<Rightarrow> bool" where
  "keys_unique t \<longleftrightarrow> distinct (map (\<lambda>e. field e ''key'') (elements (field t ''routes'')))"

subsection \<open>The typed records as values\<close>

text \<open>
  A state of the datatype, written as the object it stands for. The opaque params
  object of a route is given by its properties, \<open>obj\<close>.
\<close>

fun route_fields :: "(object \<Rightarrow> (string \<times> JSValue) list) \<Rightarrow> string Route \<Rightarrow> (string \<times> JSValue) list" where
  "route_fields obj (Route k n p) =
     [(''key'', JString k), (''name'', JString n)] @
     (case p of None \<Rightarrow> [] | Some x \<Rightarrow> [(''params'', JObject (obj x))])"

primrec toJS :: "(object \<Rightarrow> (string \<times> JSValue) list) \<Rightarrow> NavigationState \<Rightarrow> JSValue" where
  "toJS obj (NavigationState k i ns rs) =
     JObject
       [(''key'', JString k),
        (''index'', JNumber (Finite (of_int i))),
        (''routeNames'', JArray (map JString ns)),
        (''routes'',
          JArray (map (\<lambda>(r, c). JObject (route_fields obj r @
                                   (case c of None \<Rightarrow> [] | Some j \<Rightarrow> [(''state'', j)])))
                    (map (map_prod id (map_option (toJS obj))) rs)))]"

section \<open>The parameter lists of \<open>navigate\<close> and \<open>replace\<close>\<close>













section \<open>Example values\<close>

text \<open>
  A stack whose only route nests a state; the nested state has the key of its parent,
  and the stack has a property beside the four of the type. A route named \<open>Home\<close>.
\<close>

abbreviation (input) stack_child :: JSValue where
  "stack_child \<equiv> JObject
     [(''key'', JString ''stack-1''), (''index'', JNumber NaN),
      (''routeNames'', JArray []), (''routes'', JArray [])]"

abbreviation (input) stack_value :: JSValue where
  "stack_value \<equiv> JObject
     [(''key'', JString ''stack-1''),
      (''index'', JNumber (Finite 0)),
      (''routeNames'', JArray [JString ''Root'']),
      (''routes'', JArray
         [JObject [(''key'', JString ''root-1''), (''name'', JString ''Root''),
                   (''state'', stack_child)]]),
      (''stale'', JBoolean True)]"

abbreviation (input) home_route :: JSValue where
  "home_route \<equiv> JObject [(''key'', JString ''home-1''), (''name'', JString ''Home'')]"

section \<open>The values of the type NavigationState\<close>

text \<open>
  Every state nested in a navigation state is a navigation state.
\<close>

lemma nested_conform:
  "is_NavigationState v \<Longrightarrow> t \<in> set (nestedStates v) \<Longrightarrow> is_NavigationState t"
proof (induction v arbitrary: t rule: nestedStates.induct)
  case (1 fs)
  show ?case
  proof (cases "t = JObject fs")
    case True
    with "1.prems" show ?thesis by simp
  next
    case False
    with "1.prems"(2) obtain e where
      e: "e \<in> set (elements (field (JObject fs) ''routes''))"
      and st: "field e ''state'' \<noteq> JUndefined"
      and t: "t \<in> set (nestedStates (field e ''state''))"
      by (auto split: if_splits)
    from e obtain rs where rs: "field (JObject fs) ''routes'' = JArray rs" "e \<in> set rs"
      by (cases "field (JObject fs) ''routes''") auto
    with "1.prems"(1) st have "is_NavigationState (field e ''state'')"
      by (auto simp: list_all_iff)
    from "1.IH" [OF e st this t] show ?thesis .
  qed
qed simp_all

text \<open>
  What the type asks of a value, and what suffices for it.
\<close>

lemma state_fields:
  assumes "is_NavigationState t"
  shows "is_string (field t ''key'')" "is_number (field t ''index'')"
    "is_string_array (field t ''routeNames'')"
    "\<exists>rs. field t ''routes'' = JArray rs \<and> list_all is_StateRoute rs"
  using assms
  by (cases t; auto simp: is_StateRoute_def list_all_iff split: JSValue.splits if_splits)+

lemma state_intro:
  assumes "is_number n" "list_all is_StateRoute rs"
  shows "is_NavigationState
    (JObject [(''key'', JString k), (''index'', n), (''routeNames'', JArray (map JString ns)),
              (''routes'', JArray rs)])"
  using assms by (auto simp: is_StateRoute_def list_all_iff)

text \<open>
  Every state of the datatype stands for a value of the type.
\<close>

lemma toJS_is_NavigationState: "is_NavigationState (toJS obj s)"
proof (induction s)
  case (NavigationState k i ns rs)
  have "is_StateRoute (JObject (route_fields obj r @
          (case map_option (toJS obj) c of None \<Rightarrow> [] | Some j \<Rightarrow> [(''state'', j)])))"
    if "(r, c) \<in> set rs" for r c
  proof -
    have r: "is_Route (JObject (route_fields obj r @ extra))"
      if "extra = [] \<or> (\<exists>j. extra = [(''state'', j)])" for extra
      using that by (cases r) (auto simp: is_Route_def split: option.splits)
    show ?thesis
    proof (cases c)
      case None
      then show ?thesis using r [of "[]"] by (cases r) (auto simp: is_StateRoute_def split: option.splits)
    next
      case (Some s')
      with that NavigationState.IH have "is_NavigationState (toJS obj s')"
        by fastforce
      moreover have "toJS obj s' \<noteq> JUndefined" by (cases s') simp
      ultimately show ?thesis using Some r [of "[(''state'', toJS obj s')]"]
        by (cases r) (auto simp: is_StateRoute_def split: option.splits)
    qed
  qed
  then have "list_all is_StateRoute
      (map (\<lambda>(r, c). JObject (route_fields obj r @
                        (case c of None \<Rightarrow> [] | Some j \<Rightarrow> [(''state'', j)])))
         (map (map_prod id (map_option (toJS obj))) rs))"
    by (auto simp: list_all_iff)
  from state_intro [OF _ this, of "JNumber (Finite (of_int i))" k ns]
  show ?case by simp
qed

text \<open>
  Claim C7, as the type has it: an object type is open, and \<open>key\<close> is a string like any
  other. The stack of the examples is a value of the type \<open>NavigationState\<close>; it has a
  fifth property, \<open>stale\<close>, and the state nested in it has the same key as the stack
  itself.
\<close>

theorem NavigationState_shape_counterexample:
  "is_NavigationState stack_value \<and>
   field stack_value ''stale'' = JBoolean True \<and>
   nestedStates stack_value = [stack_value, stack_child] \<and>
   field stack_child ''key'' = field stack_value ''key''"
  by (simp add: is_Route_def)

text \<open>
  Claim C7, amended: the type \<open>NavigationState\<close> is recursive. Every value of the type,
  and every state nested in it at any depth, has a string \<open>key\<close>, a numeric \<open>index\<close>, a
  list of strings \<open>routeNames\<close> and a list \<open>routes\<close> of route records, each with a
  string \<open>key\<close>, a string \<open>name\<close>, optional \<open>params\<close> (an object) and an optional
  \<open>state\<close> that is again a \<open>NavigationState\<close>. The type asks for these properties, admits
  further ones, and does not make a key unique.
\<close>

theorem NavigationState_shape:
  assumes "is_NavigationState v"
  shows "\<forall>t \<in> set (nestedStates v).
           is_string (field t ''key'') \<and>
           is_number (field t ''index'') \<and>
           is_string_array (field t ''routeNames'') \<and>
           (\<exists>rs. field t ''routes'' = JArray rs \<and>
              (\<forall>e \<in> set rs.
                 is_string (field e ''key'') \<and>
                 is_string (field e ''name'') \<and>
                 (field e ''params'' = JUndefined \<or> is_object (field e ''params'')) \<and>
                 (field e ''state'' = JUndefined \<or> is_NavigationState (field e ''state''))))"
proof
  fix t assume "t \<in> set (nestedStates v)"
  with assms have t: "is_NavigationState t" by (rule nested_conform)
  from state_fields(4) [OF t] obtain rs where
    rs: "field t ''routes'' = JArray rs" "list_all is_StateRoute rs" by blast
  then have "\<forall>e \<in> set rs.
                 is_string (field e ''key'') \<and>
                 is_string (field e ''name'') \<and>
                 (field e ''params'' = JUndefined \<or> is_object (field e ''params'')) \<and>
                 (field e ''state'' = JUndefined \<or> is_NavigationState (field e ''state''))"
    by (auto simp: list_all_iff is_StateRoute_def is_Route_def)
  with rs(1) state_fields(1-3) [OF t]
  show "is_string (field t ''key'') \<and>
           is_number (field t ''index'') \<and>
           is_string_array (field t ''routeNames'') \<and>
           (\<exists>rs. field t ''routes'' = JArray rs \<and>
              (\<forall>e \<in> set rs.
                 is_string (field e ''key'') \<and>
                 is_string (field e ''name'') \<and>
                 (field e ''params'' = JUndefined \<or> is_object (field e ''params'')) \<and>
                 (field e ''state'' = JUndefined \<or> is_NavigationState (field e ''state''))))"
    by blast
qed

text \<open>
  The theorem on the stack of the examples and the state nested in it (claim C7).
\<close>

theorem NavigationState_shape_witness:
  "is_NavigationState stack_value \<and>
   is_string (field stack_child ''key'') \<and>
   is_number (field stack_child ''index'') \<and>
   is_string_array (field stack_child ''routeNames'')"
proof -
  have conf: "is_NavigationState stack_value" by (simp add: is_Route_def)
  have "stack_child \<in> set (nestedStates stack_value)" by simp
  with NavigationState_shape [OF conf] conf show ?thesis by blast
qed

section \<open>The conventions the type does not enforce\<close>

subsection \<open>The index\<close>

text \<open>
  Claim C1, as the type has it: \<open>index\<close> is a number and \<open>routes\<close> an array, declared
  independently. The state with the single route \<open>Home\<close> and the index 1 is a value of
  the type \<open>NavigationState\<close>, and 1 is no position of its list of routes.
\<close>

theorem index_valid_counterexample:
  "is_NavigationState
     (JObject [(''key'', JString ''stack-1''), (''index'', JNumber (Finite 1)),
               (''routeNames'', JArray [JString ''Home'']), (''routes'', JArray [home_route])]) \<and>
   \<not> index_valid
     (JObject [(''key'', JString ''stack-1''), (''index'', JNumber (Finite 1)),
               (''routeNames'', JArray [JString ''Home'']), (''routes'', JArray [home_route])])"
  by (simp add: is_Route_def index_valid_def)

text \<open>
  Claim C1, amended: in every \<open>NavigationState\<close> value, the root of a state tree or a
  state nested in it at any depth, \<open>index\<close> is a number. The type does not make it a
  position of \<open>routes\<close>: every number is admitted as index beside every list of routes,
  and the state whose index is the length of its list of routes is a value of the type
  with an invalid index. That \<open>0 \<le> index < length routes\<close> is left to whoever produces
  states; \<open>getInitialState\<close> and \<open>getStateForAction\<close> are declared to return this same
  type.
\<close>

theorem index_is_number:
  "(is_NavigationState v \<longrightarrow> (\<forall>t \<in> set (nestedStates v). is_number (field t ''index''))) \<and>
   (is_number n \<and> list_all is_StateRoute rs \<longrightarrow>
      is_NavigationState
        (JObject [(''key'', JString k), (''index'', n),
                  (''routeNames'', JArray (map JString ns)), (''routes'', JArray rs)])) \<and>
   \<not> index_valid
       (JObject [(''key'', JString k), (''index'', JNumber (Finite (of_nat (length rs)))),
                 (''routeNames'', JArray (map JString ns)), (''routes'', JArray rs)])"
proof (intro conjI impI ballI)
  fix t assume "is_NavigationState v" "t \<in> set (nestedStates v)"
  then have "is_NavigationState t" by (rule nested_conform)
  then show "is_number (field t ''index'')" by (rule state_fields)
next
  assume "is_number n \<and> list_all is_StateRoute rs"
  then show "is_NavigationState
        (JObject [(''key'', JString k), (''index'', n),
                  (''routeNames'', JArray (map JString ns)), (''routes'', JArray rs)])"
    using state_intro [of n rs k ns] by blast
next
  show "\<not> index_valid
       (JObject [(''key'', JString k), (''index'', JNumber (Finite (of_nat (length rs)))),
                 (''routeNames'', JArray (map JString ns)), (''routes'', JArray rs)])"
    by (simp add: index_valid_def)
qed

text \<open>
  The theorem on the stack of the examples, whose nested state has the index \<open>NaN\<close>, and
  on a state of one route with the index -1 (claim C1).
\<close>

theorem index_is_number_witness:
  "is_NavigationState stack_value \<and>
   is_number (field stack_child ''index'') \<and>
   is_NavigationState
     (JObject [(''key'', JString ''tabs-1''), (''index'', JNumber (Finite (-1))),
               (''routeNames'', JArray (map JString [''Home''])), (''routes'', JArray [home_route])])"
proof -
  have conf: "is_NavigationState stack_value" by (simp add: is_Route_def)
  have mem: "stack_child \<in> set (nestedStates stack_value)" by simp
  have hyp: "is_number (JNumber (Finite (-1))) \<and> list_all is_StateRoute [home_route]"
    by (simp add: is_StateRoute_def is_Route_def)
  from index_is_number [of stack_value "JNumber (Finite (-1))" "[home_route]" "''tabs-1''" "[''Home'']"]
    conf mem hyp
  show ?thesis by blast
qed

subsection \<open>The route names\<close>

text \<open>
  Claim C2, as the type has it: \<open>routeNames\<close> and \<open>routes\<close> are declared independently.
  The state that renders the route \<open>Home\<close> and lists no route name is a value of the
  type \<open>NavigationState\<close>.
\<close>

theorem routeNames_cover_counterexample:
  "is_NavigationState
     (JObject [(''key'', JString ''stack-1''), (''index'', JNumber (Finite 0)),
               (''routeNames'', JArray []), (''routes'', JArray [home_route])]) \<and>
   \<not> routeNames_cover
     (JObject [(''key'', JString ''stack-1''), (''index'', JNumber (Finite 0)),
               (''routeNames'', JArray []), (''routes'', JArray [home_route])])"
  by (simp add: is_Route_def routeNames_cover_def)

text \<open>
  Claim C2, amended: in every \<open>NavigationState\<close> value, the root of a state tree or a
  state nested in it at any depth, \<open>routeNames\<close> is a list of strings and every route
  of \<open>routes\<close> has a string \<open>name\<close>. The type does not relate the two: beside every
  non-empty list of routes the empty list is admitted as \<open>routeNames\<close>, and that state
  does not list the names of its routes. That \<open>routeNames\<close> holds the names of the
  rendered routes is left to whoever produces states.
\<close>

theorem routeNames_are_strings:
  "(is_NavigationState v \<longrightarrow>
      (\<forall>t \<in> set (nestedStates v).
         is_string_array (field t ''routeNames'') \<and>
         (\<forall>e \<in> set (elements (field t ''routes'')). is_string (field e ''name'')))) \<and>
   (is_number n \<and> list_all is_StateRoute (e # rs) \<longrightarrow>
      is_NavigationState
        (JObject [(''key'', JString k), (''index'', n),
                  (''routeNames'', JArray []), (''routes'', JArray (e # rs))]) \<and>
      \<not> routeNames_cover
        (JObject [(''key'', JString k), (''index'', n),
                  (''routeNames'', JArray []), (''routes'', JArray (e # rs))]))"
proof (intro conjI impI ballI)
  fix t assume "is_NavigationState v" "t \<in> set (nestedStates v)"
  then have t: "is_NavigationState t" by (rule nested_conform)
  then show "is_string_array (field t ''routeNames'')" by (rule state_fields)
  fix e assume "e \<in> set (elements (field t ''routes''))"
  with state_fields(4) [OF t] show "is_string (field e ''name'')"
    by (auto simp: list_all_iff is_StateRoute_def is_Route_def)
next
  assume "is_number n \<and> list_all is_StateRoute (e # rs)"
  then show "is_NavigationState
        (JObject [(''key'', JString k), (''index'', n),
                  (''routeNames'', JArray []), (''routes'', JArray (e # rs))])"
    using state_intro [of n "e # rs" k "[]"] by simp
next
  show "\<not> routeNames_cover
        (JObject [(''key'', JString k), (''index'', n),
                  (''routeNames'', JArray []), (''routes'', JArray (e # rs))])"
    by (simp add: routeNames_cover_def)
qed

text \<open>
  The theorem on the stack of the examples and on a state with the route \<open>Home\<close> and
  no route name (claim C2).
\<close>

theorem routeNames_are_strings_witness:
  "is_NavigationState stack_value \<and>
   is_string_array (field stack_child ''routeNames'') \<and>
   is_NavigationState
     (JObject [(''key'', JString ''tabs-1''), (''index'', JNumber (Finite 0)),
               (''routeNames'', JArray []), (''routes'', JArray [home_route])])"
proof -
  have conf: "is_NavigationState stack_value" by (simp add: is_Route_def)
  have mem: "stack_child \<in> set (nestedStates stack_value)" by simp
  have hyp: "is_number (JNumber (Finite 0)) \<and> list_all is_StateRoute [home_route]"
    by (simp add: is_StateRoute_def is_Route_def)
  from routeNames_are_strings [of stack_value "JNumber (Finite 0)" home_route "[]" "''tabs-1''"]
    conf mem hyp
  show ?thesis by blast
qed

subsection \<open>The route keys\<close>

text \<open>
  Claim C4, as the types have it: the key of a route is a string, and nothing in the
  type of \<open>routes\<close> sets the routes of the list apart. The state whose two routes both
  have the key \<open>home-1\<close> is a value of the type \<open>NavigationState\<close>.
\<close>

theorem keys_unique_counterexample:
  "is_NavigationState
     (JObject [(''key'', JString ''stack-1''), (''index'', JNumber (Finite 0)),
               (''routeNames'', JArray [JString ''Home'']),
               (''routes'', JArray [home_route, home_route])]) \<and>
   \<not> keys_unique
     (JObject [(''key'', JString ''stack-1''), (''index'', JNumber (Finite 0)),
               (''routeNames'', JArray [JString ''Home'']),
               (''routes'', JArray [home_route, home_route])])"
  by (simp add: is_Route_def keys_unique_def)

text \<open>
  Claim C4, amended: in every list of sibling routes, the \<open>routes\<close> of a
  \<open>NavigationState\<close> value or of a state nested in it at any depth, every route has a
  string \<open>key\<close>. The types do not make the keys of a list differ: a list of routes that
  holds a route twice is admitted as \<open>routes\<close>, and its keys are not unique. Unique keys
  are left to whoever produces states.
\<close>

theorem route_keys_are_strings:
  "(is_NavigationState v \<longrightarrow>
      (\<forall>t \<in> set (nestedStates v).
         \<forall>e \<in> set (elements (field t ''routes'')). is_string (field e ''key''))) \<and>
   (is_number n \<and> list_all is_StateRoute (e # rs) \<longrightarrow>
      is_NavigationState
        (JObject [(''key'', JString k), (''index'', n),
                  (''routeNames'', JArray (map JString ns)), (''routes'', JArray (e # e # rs))]) \<and>
      \<not> keys_unique
        (JObject [(''key'', JString k), (''index'', n),
                  (''routeNames'', JArray (map JString ns)), (''routes'', JArray (e # e # rs))]))"
proof (intro conjI impI ballI)
  fix t e assume "is_NavigationState v" "t \<in> set (nestedStates v)"
    and e: "e \<in> set (elements (field t ''routes''))"
  then have t: "is_NavigationState t" by (simp add: nested_conform)
  with state_fields(4) [OF t] e show "is_string (field e ''key'')"
    by (auto simp: list_all_iff is_StateRoute_def is_Route_def)
next
  assume "is_number n \<and> list_all is_StateRoute (e # rs)"
  then show "is_NavigationState
        (JObject [(''key'', JString k), (''index'', n),
                  (''routeNames'', JArray (map JString ns)), (''routes'', JArray (e # e # rs))])"
    using state_intro [of n "e # e # rs" k ns] by simp
next
  show "\<not> keys_unique
        (JObject [(''key'', JString k), (''index'', n),
                  (''routeNames'', JArray (map JString ns)), (''routes'', JArray (e # e # rs))])"
    by (simp add: keys_unique_def)
qed

text \<open>
  The theorem on the stack of the examples and on a state that holds the route \<open>Home\<close>
  twice (claim C4).
\<close>

theorem route_keys_are_strings_witness:
  "is_NavigationState stack_value \<and>
   is_string (field (JObject [(''key'', JString ''root-1''), (''name'', JString ''Root''),
                   (''state'', stack_child)]) ''key'') \<and>
   is_NavigationState
     (JObject [(''key'', JString ''tabs-1''), (''index'', JNumber (Finite 0)),
               (''routeNames'', JArray (map JString [''Home''])),
               (''routes'', JArray [home_route, home_route])])"
proof -
  have conf: "is_NavigationState stack_value" by (simp add: is_Route_def)
  have mem: "stack_value \<in> set (nestedStates stack_value)" by simp
  have el: "JObject [(''key'', JString ''root-1''), (''name'', JString ''Root''),
                   (''state'', stack_child)] \<in> set (elements (field stack_value ''routes''))"
    by simp
  have hyp: "is_number (JNumber (Finite 0)) \<and> list_all is_StateRoute [home_route]"
    by (simp add: is_StateRoute_def is_Route_def)
  from route_keys_are_strings [of stack_value "JNumber (Finite 0)" home_route "[]" "''tabs-1''" "[''Home'']"]
    conf mem el hyp
  show ?thesis by blast
qed

section \<open>Partial states\<close>

text \<open>
  Claim C8, as the type has it: the option \<open>partialState\<close> of \<open>getInitialState\<close> has the
  type \<open>NavigationState | InitialState\<close>. A full navigation state is a partial state,
  and it supplies its own key and its own route names.
\<close>

theorem partialState_key_counterexample:
  "partialState_key (Full tabs_first) = Some ''tabs-1'' \<and>
   partialState_routeNames (Full tabs_first) = Some [''Home'', ''Profile'']"
  by simp

text \<open>
  Claim C8, amended: an \<open>InitialState\<close> carries no \<open>key\<close> and no \<open>routeNames\<close>, so for
  such a partial state both have to come from the router; a partial state that is a
  full \<open>NavigationState\<close> carries its own \<open>key\<close> and \<open>routeNames\<close>. A partial state
  lacks a key exactly when it is an \<open>InitialState\<close>, and lacks route names exactly then.
\<close>

theorem partialState_key_routeNames:
  "partialState_key (Partial i) = None \<and>
   partialState_routeNames (Partial i) = None \<and>
   partialState_key (Full s) = Some (NavigationState.key s) \<and>
   partialState_routeNames (Full s) = Some (routeNames s) \<and>
   (partialState_key p = None) = (\<exists>j. p = Partial j) \<and>
   (partialState_routeNames p = None) = (\<exists>j. p = Partial j)"
  by (cases p) simp_all

section \<open>Calls of \<open>navigate\<close> and \<open>replace\<close>\<close>






end
